theory Spec2Isabelle
  imports Main
begin

section \<open>The dialog controller (ui/dialog/dialog.ts)\<close>

text \<open>
  A \<open>Dialog\<close> plugin instance is an object on the JavaScript heap, one per editor, and the
  class has one static slot shared by all of them. The model keeps the instances in a store
  from references to instance records and the static slot beside it.

  The callbacks (\<open>onShow\<close>, \<open>onHide\<close>) are user code and the event emitter belongs to
  another package. Both are parameters of the model (a host), so that what a theorem needs
  of them is a hypothesis of the theorem. A trace of effects records what an operation
  does besides changing the fields.
\<close>

type_synonym dialog_ref = nat
type_synonym callback = string

text \<open>
  \<open>DialogViewPosition\<close> and \<open>DialogView\<close> are declared in dialogview.ts. The model keeps the
  two positions \<open>_show\<close> chooses between, what \<open>_show\<close> hands to the view through
  \<open>view.set\<close> and \<open>view.setupParts\<close>, the content view that \<open>_hide\<close> resets, and whether
  \<open>destroy\<close> has been called on the view.
\<close>

datatype DialogViewPosition = SCREEN_CENTER | EDITOR_CENTER | OTHER_POSITION string

record DialogDefinition =
  def_id :: string
  def_icon :: "string option"
  def_title :: "string option"
  def_hasCloseButton :: "bool option"
  def_content :: "string list option"
  def_actionButtons :: "string list option"
  def_className :: "string option"
  def_isModal :: "bool option"
  def_position :: "DialogViewPosition option"
  def_onShow :: "callback option"
  def_onHide :: "callback option"

record DialogView =
  view_position :: DialogViewPosition
  view_isVisible :: bool
  view_className :: "string option"
  view_isModal :: "bool option"
  view_icon :: "string option"
  view_title :: "string option"
  view_hasCloseButton :: bool
  view_contentView :: "string list option"
  view_actionButtons :: "string list option"
  view_isDestroyed :: bool

text \<open>
  The fields of an instance. \<open>id\<close> is \<open>string | null\<close> (\<open>None\<close> is \<open>null\<close>); \<open>view\<close> and
  \<open>_onHide\<close> may be \<open>undefined\<close> (\<open>None\<close>); \<open>isOpen\<close> is declared \<open>boolean\<close> but the
  constructor does not assign it, so it is \<open>undefined\<close> (\<open>None\<close>) until the first \<open>_show\<close>.
\<close>

record Dialog =
  dlg_id :: "string option"
  dlg_view :: "DialogView option"
  dlg_isOpen :: "bool option"
  dlg_onHide :: "callback option"

text \<open>
  The static \<open>Dialog._visibleDialogPlugin\<close>: declared \<open>Dialog | null\<close> without an initialiser,
  so it starts as \<open>undefined\<close>. The code only tests it for truthiness.
\<close>

datatype plugin_slot = Undefined | Null | Plugin dialog_ref

record dstate =
  dialogs :: "dialog_ref \<rightharpoonup> Dialog"
  visibleDialogPlugin :: plugin_slot

text \<open>What an operation does besides changing the fields, in the order it does it.\<close>

datatype effect =
    Fire dialog_ref string
  | NewDialogView dialog_ref
  | BodyAdd dialog_ref
  | FocusTrackerAdd dialog_ref
  | KeystrokesListenTo dialog_ref
  | ContentViewReset dialog_ref
  | BodyRemove dialog_ref
  | FocusTrackerRemove dialog_ref
  | KeystrokesStopListening dialog_ref
  | ViewDestroy dialog_ref
  | EditingViewFocus dialog_ref
  | CallOnShow callback dialog_ref
  | CallOnHide callback dialog_ref

type_synonym action = "dstate \<Rightarrow> dstate \<times> effect list"

definition andThen :: "action \<Rightarrow> action \<Rightarrow> action" where
  "andThen f g s = (case f s of (s1, t1) \<Rightarrow> (case g s1 of (s2, t2) \<Rightarrow> (s2, t1 @ t2)))"

text \<open>The constructor: \<open>this.set( 'id', null )\<close>; nothing else is assigned.\<close>

definition Dialog_constructor :: Dialog where
  "Dialog_constructor = \<lparr>dlg_id = None, dlg_view = None, dlg_isOpen = None, dlg_onHide = None\<rparr>"

definition init_state :: dstate where
  "init_state = \<lparr>dialogs = Map.empty, visibleDialogPlugin = Undefined\<rparr>"

text \<open>\<open>new Dialog( editor )\<close> at a reference that denotes no instance yet.\<close>

definition new_Dialog :: "dialog_ref \<Rightarrow> dstate \<Rightarrow> dstate" where
  "new_Dialog r s = s\<lparr>dialogs := (dialogs s)(r \<mapsto> Dialog_constructor)\<rparr>"

subsection \<open>\<open>_show\<close> and \<open>_hide\<close>\<close>

definition new_DialogView :: "DialogDefinition \<Rightarrow> DialogView" where
  "new_DialogView d =
     \<lparr>view_position =
        (case def_position d of
           Some p \<Rightarrow> p
         | None \<Rightarrow> (if def_isModal d = Some True then SCREEN_CENTER else EDITOR_CENTER)),
      view_isVisible = True,
      view_className = def_className d,
      view_isModal = def_isModal d,
      view_icon = def_icon d,
      view_title = def_title d,
      view_hasCloseButton = (case def_hasCloseButton d of None \<Rightarrow> True | Some b \<Rightarrow> b),
      view_contentView = def_content d,
      view_actionButtons = def_actionButtons d,
      view_isDestroyed = False\<rparr>"

definition Dialog__show :: "dialog_ref \<Rightarrow> DialogDefinition \<Rightarrow> action" where
  "Dialog__show this d s =
     (case dialogs s this of
        None \<Rightarrow> (s, [])
      | Some inst \<Rightarrow>
          (s\<lparr>dialogs := (dialogs s)(this \<mapsto>
                inst\<lparr>dlg_view := Some (new_DialogView d),
                     dlg_id := Some (def_id d),
                     dlg_onHide :=
                       (case def_onHide d of Some cb \<Rightarrow> Some cb | None \<Rightarrow> dlg_onHide inst),
                     dlg_isOpen := Some True\<rparr>),
              visibleDialogPlugin := Plugin this\<rparr>,
           [NewDialogView this, BodyAdd this, FocusTrackerAdd this, KeystrokesListenTo this]))"

definition Dialog__hide :: "dialog_ref \<Rightarrow> action" where
  "Dialog__hide this s =
     (case dialogs s this of
        None \<Rightarrow> (s, [])
      | Some inst \<Rightarrow>
          (case dlg_view inst of
             None \<Rightarrow> (s, [])
           | Some v \<Rightarrow>
               (s\<lparr>dialogs := (dialogs s)(this \<mapsto>
                     inst\<lparr>dlg_view := Some (v\<lparr>view_contentView := map_option (\<lambda>_. []) (view_contentView v),
                                               view_isDestroyed := True\<rparr>),
                          dlg_id := None,
                          dlg_isOpen := Some False\<rparr>),
                   visibleDialogPlugin := Null\<rparr>,
                (case view_contentView v of None \<Rightarrow> [] | Some _ \<Rightarrow> [ContentViewReset this]) @
                [BodyRemove this, FocusTrackerRemove this, KeystrokesStopListening this,
                 ViewDestroy this, EditingViewFocus this])))"

subsection \<open>What lies outside dialog.ts: callbacks and the emitter\<close>

text \<open>
  \<open>onShow\<close> and \<open>onHide\<close> are functions of the user, called with the \<open>Dialog\<close> instance;
  they may call \<open>show\<close> and \<open>hide\<close> themselves. A dialog definition and the field
  \<open>_onHide\<close> hold the name of a callback, and \<open>invoke h cb d\<close> is what the callback named
  \<open>cb\<close> does to the dialog state when it is called with the instance \<open>d\<close>.

  The emitter (\<open>on\<close>, \<open>fire\<close>) belongs to the utils package and is a parameter as well:
  \<open>fire h this name ls\<close> is what \<open>this.fire( name )\<close> does, where \<open>ls\<close> are the listeners
  that \<open>_initShowHideListeners\<close> registered for the event, the one of normal priority before
  the one of low priority. Listeners attached to the event from outside, which may run
  before or between them or stop the event, are part of \<open>fire h\<close>.
\<close>

record host =
  invoke :: "callback \<Rightarrow> dialog_ref \<Rightarrow> action"
  fire :: "dialog_ref \<Rightarrow> string \<Rightarrow> action list \<Rightarrow> action"

fun run_listeners :: "action list \<Rightarrow> action" where
  "run_listeners [] s = (s, [])"
| "run_listeners (l # ls) s = andThen l (run_listeners ls) s"

text \<open>An emitter with no listener from outside: it runs the given listeners in order.\<close>

definition own_listeners_only :: "dialog_ref \<Rightarrow> string \<Rightarrow> action list \<Rightarrow> action" where
  "own_listeners_only this name ls s =
     (case run_listeners ls s of (s', t) \<Rightarrow> (s', Fire this name # t))"

subsection \<open>The listeners of \<open>_initShowHideListeners\<close>\<close>

definition show_listener :: "dialog_ref \<Rightarrow> DialogDefinition \<Rightarrow> action" where
  "show_listener this args = Dialog__show this args"

definition show_listener_low :: "host \<Rightarrow> dialog_ref \<Rightarrow> DialogDefinition \<Rightarrow> action" where
  "show_listener_low h this args s =
     (case def_onShow args of
        Some cb \<Rightarrow> (case invoke h cb this s of (s1, t1) \<Rightarrow> (s1, CallOnShow cb this # t1))
      | None \<Rightarrow> (s, []))"

definition hide_listener :: "dialog_ref \<Rightarrow> action" where
  "hide_listener this s =
     (case visibleDialogPlugin s of
        Plugin v \<Rightarrow> Dialog__hide v s
      | _ \<Rightarrow> (s, []))"

text \<open>\<open>this._onHide = undefined\<close>, on the state the callback left.\<close>

definition clear_onHide :: "dialog_ref \<Rightarrow> dstate \<Rightarrow> dstate" where
  "clear_onHide this s =
     (case dialogs s this of
        None \<Rightarrow> s
      | Some inst \<Rightarrow> s\<lparr>dialogs := (dialogs s)(this \<mapsto> inst\<lparr>dlg_onHide := None\<rparr>)\<rparr>)"

definition hide_listener_low :: "host \<Rightarrow> dialog_ref \<Rightarrow> action" where
  "hide_listener_low h this s =
     (case dialogs s this of
        None \<Rightarrow> (s, [])
      | Some inst \<Rightarrow>
          (case dlg_onHide inst of
             Some cb \<Rightarrow>
               (case invoke h cb this s of
                  (s1, t1) \<Rightarrow> (clear_onHide this s1, CallOnHide cb this # t1))
           | None \<Rightarrow> (s, [])))"

definition fire_show :: "host \<Rightarrow> dialog_ref \<Rightarrow> DialogDefinition \<Rightarrow> action" where
  "fire_show h this args =
     fire h this (''show:'' @ def_id args) [show_listener this args, show_listener_low h this args]"

definition id_text :: "string option \<Rightarrow> string" where
  "id_text i = (case i of None \<Rightarrow> ''null'' | Some x \<Rightarrow> x)"

definition fire_hide :: "host \<Rightarrow> dialog_ref \<Rightarrow> action" where
  "fire_hide h this s =
     fire h this
       (''hide:'' @ id_text (case dialogs s this of None \<Rightarrow> None | Some inst \<Rightarrow> dlg_id inst))
       [hide_listener this, hide_listener_low h this] s"

subsection \<open>\<open>show\<close> and \<open>hide\<close>\<close>

definition Dialog_hide :: "host \<Rightarrow> dialog_ref \<Rightarrow> action" where
  "Dialog_hide h this s =
     (case visibleDialogPlugin s of
        Plugin v \<Rightarrow> fire_hide h v s
      | _ \<Rightarrow> (s, []))"

definition Dialog_show :: "host \<Rightarrow> dialog_ref \<Rightarrow> DialogDefinition \<Rightarrow> action" where
  "Dialog_show h this dialogDefinition =
     andThen (Dialog_hide h this) (fire_show h this dialogDefinition)"

subsection \<open>Sequences of calls\<close>

text \<open>
  A call names its receiver. \<open>Close r\<close> is the \<open>close\<close> event of the view that instance
  \<open>r\<close> created, whose listener (registered in \<open>_show\<close>) calls \<open>r.hide()\<close>. A method call
  whose receiver denotes no instance, a \<open>close\<close> event of an instance that never created a
  view, and a construction at a reference already taken, are not calls of the program; a
  sequence skips them.
\<close>

datatype call =
    New dialog_ref
  | Show dialog_ref DialogDefinition
  | Hide dialog_ref
  | Close dialog_ref

definition do_call :: "host \<Rightarrow> call \<Rightarrow> action" where
  "do_call h c s =
     (case c of
        New r \<Rightarrow> (if dialogs s r = None then (new_Dialog r s, []) else (s, []))
      | Show r d \<Rightarrow> (if dialogs s r = None then (s, []) else Dialog_show h r d s)
      | Hide r \<Rightarrow> (if dialogs s r = None then (s, []) else Dialog_hide h r s)
      | Close r \<Rightarrow>
          (case dialogs s r of
             None \<Rightarrow> (s, [])
           | Some inst \<Rightarrow> (if dlg_view inst = None then (s, []) else Dialog_hide h r s)))"

fun run :: "host \<Rightarrow> call list \<Rightarrow> action" where
  "run h [] s = (s, [])"
| "run h (c # cs) s = andThen (do_call h c) (run h cs) s"

definition after :: "host \<Rightarrow> call list \<Rightarrow> dstate" where
  "after h cs = fst (run h cs init_state)"

text \<open>Reading the fields of the instance at a reference.\<close>

definition isOpen_of :: "dstate \<Rightarrow> dialog_ref \<Rightarrow> bool option" where
  "isOpen_of s r = (case dialogs s r of None \<Rightarrow> None | Some inst \<Rightarrow> dlg_isOpen inst)"

definition id_of :: "dstate \<Rightarrow> dialog_ref \<Rightarrow> string option" where
  "id_of s r = (case dialogs s r of None \<Rightarrow> None | Some inst \<Rightarrow> dlg_id inst)"

definition onHide_of :: "dstate \<Rightarrow> dialog_ref \<Rightarrow> callback option" where
  "onHide_of s r = (case dialogs s r of None \<Rightarrow> None | Some inst \<Rightarrow> dlg_onHide inst)"

definition view_of :: "dstate \<Rightarrow> dialog_ref \<Rightarrow> DialogView option" where
  "view_of s r = (case dialogs s r of None \<Rightarrow> None | Some inst \<Rightarrow> dlg_view inst)"


text \<open>A dialog definition that gives the id and leaves every optional property out.\<close>

definition plain_definition :: "string \<Rightarrow> DialogDefinition" where
  "plain_definition i =
     \<lparr>def_id = i, def_icon = None, def_title = None, def_hasCloseButton = None,
      def_content = None, def_actionButtons = None, def_className = None, def_isModal = None,
      def_position = None, def_onShow = None, def_onHide = None\<rparr>"

subsection \<open>Hosts\<close>

text \<open>
  A host is plain when the \<open>show\<close> and \<open>hide\<close> events reach the plugin's own listeners
  only and no callback touches the dialog controller: a callback neither calls \<open>show\<close> or
  \<open>hide\<close> nor writes a field, so it leaves the dialog state and the trace as they are.
\<close>

definition plain_host :: "host \<Rightarrow> bool" where
  "plain_host h \<longleftrightarrow>
     fire h = own_listeners_only \<and> (\<forall>cb this s. invoke h cb this s = (s, []))"

definition quiet_host :: host where
  "quiet_host = \<lparr>invoke = (\<lambda>cb this s. (s, [])), fire = own_listeners_only\<rparr>"

text \<open>
  A host whose callbacks call back into the controller: \<open>showOther\<close> is
  \<open>() => d1.show( { id: 'b' } )\<close>, \<open>showAgain\<close> is \<open>d => d.show( { id: 'again' } )\<close> and
  \<open>hideSelf\<close> is \<open>d => d.hide()\<close>. The definitions they show have no callbacks, so the
  calls made from inside a callback run on the quiet host.
\<close>

definition reentrant_host :: host where
  "reentrant_host =
     \<lparr>invoke = (\<lambda>cb this.
        if cb = ''showOther'' then Dialog_show quiet_host 1 (plain_definition ''b'')
        else if cb = ''showAgain'' then Dialog_show quiet_host this (plain_definition ''again'')
        else if cb = ''hideSelf'' then Dialog_hide quiet_host this
        else (\<lambda>s. (s, []))),
      fire = own_listeners_only\<rparr>"

text \<open>
  A host on which a listener attached from outside, of a priority above the plugin's own,
  stops every \<open>hide\<close> event, so that none of the plugin's \<open>hide\<close> listeners runs.
\<close>

definition stopping_host :: host where
  "stopping_host =
     \<lparr>invoke = (\<lambda>cb this s. (s, [])),
      fire = (\<lambda>this name ls s.
        if take 5 name = ''hide:'' then (s, [Fire this name])
        else own_listeners_only this name ls s)\<rparr>"

subsection \<open>What one \<open>hide\<close> and one \<open>show\<close> amount to on a plain host\<close>

definition hidden_view :: "DialogView \<Rightarrow> DialogView" where
  "hidden_view v =
     v\<lparr>view_contentView := map_option (\<lambda>_. []) (view_contentView v), view_isDestroyed := True\<rparr>"

definition hide_effects :: "dialog_ref \<Rightarrow> Dialog \<Rightarrow> DialogView \<Rightarrow> effect list" where
  "hide_effects v inst vw =
     Fire v (''hide:'' @ id_text (dlg_id inst)) #
     (case view_contentView vw of None \<Rightarrow> [] | Some _ \<Rightarrow> [ContentViewReset v]) @
     [BodyRemove v, FocusTrackerRemove v, KeystrokesStopListening v, ViewDestroy v,
      EditingViewFocus v] @
     (case dlg_onHide inst of None \<Rightarrow> [] | Some cb \<Rightarrow> [CallOnHide cb v])"

definition show_effects :: "dialog_ref \<Rightarrow> DialogDefinition \<Rightarrow> effect list" where
  "show_effects r d =
     [Fire r (''show:'' @ def_id d), NewDialogView r, BodyAdd r, FocusTrackerAdd r,
      KeystrokesListenTo r] @
     (case def_onShow d of None \<Rightarrow> [] | Some cb \<Rightarrow> [CallOnShow cb r])"

text \<open>
  The invariant of the calls on a plain host: an instance is open exactly when the static
  slot records it, an instance that is not open has neither an id nor a pending \<open>_onHide\<close>,
  an open instance has a view, and the slot records only instances that exist.
\<close>

definition dialog_inv :: "dstate \<Rightarrow> bool" where
  "dialog_inv s \<longleftrightarrow>
     (\<forall>r inst. dialogs s r = Some inst \<longrightarrow>
        (dlg_isOpen inst = Some True \<longleftrightarrow> visibleDialogPlugin s = Plugin r) \<and>
        (dlg_isOpen inst \<noteq> Some True \<longrightarrow> dlg_id inst = None \<and> dlg_onHide inst = None) \<and>
        (dlg_isOpen inst = Some True \<longrightarrow> dlg_view inst \<noteq> None)) \<and>
     (\<forall>r. visibleDialogPlugin s = Plugin r \<longrightarrow> dialogs s r \<noteq> None)"

section \<open>The start-index field of the list-properties view\<close>

subsection \<open>\<open>Number.parseInt\<close>\<close>

text \<open>
  \<open>Number.parseInt( string )\<close> with no radix, after ECMA-262 (\<open>parseInt\<close>): skip leading
  white space, read a sign, read a \<open>0x\<close> or \<open>0X\<close> prefix (radix 16, otherwise 10), take
  the longest run of digits of that radix; no digit gives \<open>NaN\<close>. A \<open>string\<close> stands for a
  JavaScript string whose code units are all below 256. \<open>Num n\<close> stands for the Number
  nearest to the integer \<open>n\<close>; the rounding to a double is not modelled. Rounding is
  monotone and keeps 1, so the comparison with 1 below is the comparison of the integers.
\<close>

datatype js_number = NaN | NegZero | Num int

definition isStrWhiteSpaceChar :: "char \<Rightarrow> bool" where
  "isStrWhiteSpaceChar c \<longleftrightarrow>
     c \<in> set [CHR 0x09, CHR 0x0A, CHR 0x0B, CHR 0x0C, CHR 0x0D, CHR 0x20, CHR 0xA0]"

definition digitValue :: "char \<Rightarrow> nat option" where
  "digitValue c =
     (let n = (of_char c :: nat) in
      if 48 \<le> n \<and> n \<le> 57 then Some (n - 48)
      else if 97 \<le> n \<and> n \<le> 122 then Some (n - 87)
      else if 65 \<le> n \<and> n \<le> 90 then Some (n - 55)
      else None)"

definition isRadixDigit :: "nat \<Rightarrow> char \<Rightarrow> bool" where
  "isRadixDigit R c = (case digitValue c of None \<Rightarrow> False | Some v \<Rightarrow> v < R)"

definition digitsValue :: "nat \<Rightarrow> string \<Rightarrow> nat" where
  "digitsValue R Z = foldl (\<lambda>a c. case digitValue c of None \<Rightarrow> a | Some v \<Rightarrow> a * R + v) 0 Z"

definition Number_parseInt :: "string \<Rightarrow> js_number" where
  "Number_parseInt string =
     (let S = dropWhile isStrWhiteSpaceChar string;
          negative = (case S of [] \<Rightarrow> False | c # _ \<Rightarrow> c = CHR ''-'');
          S1 = (case S of [] \<Rightarrow> S | c # rest \<Rightarrow> if c = CHR ''+'' \<or> c = CHR ''-'' then rest else S);
          hex = (take 2 S1 = ''0x'' \<or> take 2 S1 = ''0X'');
          R = (if hex then 16 else 10);
          S2 = (if hex then drop 2 S1 else S1);
          Z = takeWhile (isRadixDigit R) S2
      in if Z = [] then NaN
         else let mathInt = digitsValue R Z
              in if mathInt = 0 then (if negative then NegZero else Num 0)
                 else Num ((if negative then - 1 else 1) * int mathInt))"

text \<open>The relational operator \<open><\<close> on Numbers: false when an operand is \<open>NaN\<close>.\<close>

definition js_lt :: "js_number \<Rightarrow> js_number \<Rightarrow> bool" where
  "js_lt a b =
     (case (a, b) of
        (NaN, _) \<Rightarrow> False
      | (_, NaN) \<Rightarrow> False
      | (x, y) \<Rightarrow> (case x of Num m \<Rightarrow> m | _ \<Rightarrow> 0) < (case y of Num n \<Rightarrow> n | _ \<Rightarrow> 0))"

subsection \<open>The \<open>input\<close> listener of \<open>_createStartIndexField\<close>\<close>




section \<open>Concrete runs\<close>

text \<open>
  Editors with their \<open>Dialog\<close> plugins at the references 0, 1 and 2. \<open>find_definition\<close> has
  content and an \<open>onHide\<close> callback.
\<close>

definition find_definition :: DialogDefinition where
  "find_definition =
     (plain_definition ''find'')\<lparr>def_content := Some [''form''], def_onHide := Some ''reset''\<rparr>"

definition find_open :: "call list" where
  "find_open = [New 0, New 1, Show 0 find_definition]"

definition two_shows :: "call list" where
  "two_shows =
     [New 0, New 1, Show 0 (plain_definition ''find''), Show 1 (plain_definition ''link'')]"

text \<open>
  \<open>d0.show( { id: 'a', onHide: () => d1.show( { id: 'b' } ) } )\<close>, and then
  \<open>d2.show( { id: 'c' } )\<close>.
\<close>

definition show_other_open :: "call list" where
  "show_other_open =
     [New 0, New 1, New 2, Show 0 ((plain_definition ''a'')\<lparr>def_onHide := Some ''showOther''\<rparr>)]"



text \<open>\<open>{ id: 'x', onShow: d => d.hide() }\<close>.\<close>

definition hide_on_show :: DialogDefinition where
  "hide_on_show = (plain_definition ''x'')\<lparr>def_onShow := Some ''hideSelf''\<rparr>"

section \<open>Properties of the dialog controller\<close>

subsection \<open>One call on a plain host\<close>

lemma fst_andThen: "fst (andThen f g s) = fst (g (fst (f s)))"
  by (simp add: andThen_def case_prod_beta)


lemma plain_fire: "plain_host h \<Longrightarrow> fire h = own_listeners_only"
  by (simp add: plain_host_def)

lemma plain_invoke: "plain_host h \<Longrightarrow> invoke h cb this s = (s, [])"
  by (simp add: plain_host_def)

lemma plain_quiet_host: "plain_host quiet_host"
  by (simp add: plain_host_def quiet_host_def)

lemma Dialog_hide_none:
  "\<forall>v. visibleDialogPlugin s \<noteq> Plugin v \<Longrightarrow> Dialog_hide h r s = (s, [])"
  by (cases "visibleDialogPlugin s") (simp_all add: Dialog_hide_def)

lemma onHide_clear_idle: "dlg_onHide x = None \<Longrightarrow> x\<lparr>dlg_onHide := None\<rparr> = x"
  by simp

lemma Dialog_hide_visible:
  assumes "plain_host h"
    and "visibleDialogPlugin s = Plugin v" "dialogs s v = Some inst" "dlg_view inst = Some vw"
  shows "Dialog_hide h r s =
    (s\<lparr>dialogs := (dialogs s)(v \<mapsto> inst\<lparr>dlg_view := Some (hidden_view vw), dlg_id := None,
           dlg_isOpen := Some False, dlg_onHide := None\<rparr>),
       visibleDialogPlugin := Null\<rparr>,
     hide_effects v inst vw)"
  using assms(2-)
  by (cases "dlg_onHide inst"; cases "view_contentView vw")
     (simp_all add: Dialog_hide_def fire_hide_def plain_fire [OF assms(1)]
        plain_invoke [OF assms(1)] own_listeners_only_def andThen_def hide_listener_def
        hide_listener_low_def clear_onHide_def Dialog__hide_def hidden_view_def hide_effects_def
        onHide_clear_idle)

lemma Dialog_hide_viewless:
  assumes "plain_host h"
    and "visibleDialogPlugin s = Plugin v" "dialogs s v = Some inst" "dlg_view inst = None"
  shows "Dialog_hide h r s =
    (s\<lparr>dialogs := (dialogs s)(v \<mapsto> inst\<lparr>dlg_onHide := None\<rparr>)\<rparr>,
     Fire v (''hide:'' @ id_text (dlg_id inst)) #
     (case dlg_onHide inst of None \<Rightarrow> [] | Some cb \<Rightarrow> [CallOnHide cb v]))"
proof (cases "dlg_onHide inst")
  case None
  have "(dialogs s)(v \<mapsto> inst) = dialogs s"
    using assms(3) by (rule map_upd_triv)
  with None assms(2-) show ?thesis
    by (simp add: Dialog_hide_def fire_hide_def plain_fire [OF assms(1)]
        own_listeners_only_def andThen_def hide_listener_def hide_listener_low_def
        Dialog__hide_def onHide_clear_idle)
next
  case (Some cb)
  with assms(2-) show ?thesis
    by (simp add: Dialog_hide_def fire_hide_def plain_fire [OF assms(1)]
        plain_invoke [OF assms(1)] own_listeners_only_def andThen_def hide_listener_def
        hide_listener_low_def clear_onHide_def Dialog__hide_def)
qed

lemma Dialog_hide_dangling:
  assumes "plain_host h" and "visibleDialogPlugin s = Plugin v" "dialogs s v = None"
  shows "Dialog_hide h r s = (s, [Fire v ''hide:null''])"
  using assms(2-)
  by (simp add: Dialog_hide_def fire_hide_def plain_fire [OF assms(1)] own_listeners_only_def
      andThen_def hide_listener_def hide_listener_low_def Dialog__hide_def id_text_def)

lemma fire_show_eq:
  assumes "plain_host h" and "dialogs s r = Some inst"
  shows "fire_show h r d s =
    (s\<lparr>dialogs := (dialogs s)(r \<mapsto> inst\<lparr>dlg_view := Some (new_DialogView d),
           dlg_id := Some (def_id d),
           dlg_onHide := (case def_onHide d of Some cb \<Rightarrow> Some cb | None \<Rightarrow> dlg_onHide inst),
           dlg_isOpen := Some True\<rparr>),
       visibleDialogPlugin := Plugin r\<rparr>,
     show_effects r d)"
  using assms(2)
  by (cases "def_onShow d")
     (simp_all add: fire_show_def plain_fire [OF assms(1)] plain_invoke [OF assms(1)]
        own_listeners_only_def andThen_def show_listener_def show_listener_low_def
        Dialog__show_def show_effects_def)

subsection \<open>The invariant\<close>

lemma inv_init: "dialog_inv init_state"
  by (simp add: dialog_inv_def init_state_def)

lemma inv_new: "dialog_inv s \<Longrightarrow> dialogs s r = None \<Longrightarrow> dialog_inv (new_Dialog r s)"
  by (auto simp add: dialog_inv_def new_Dialog_def Dialog_constructor_def)

lemma inv_hide:
  assumes "plain_host h" and "dialog_inv s"
  shows "dialog_inv (fst (Dialog_hide h r s)) \<and>
     (\<forall>v. visibleDialogPlugin (fst (Dialog_hide h r s)) \<noteq> Plugin v) \<and>
     dom (dialogs (fst (Dialog_hide h r s))) = dom (dialogs s)"
proof (cases "visibleDialogPlugin s")
  case (Plugin v)
  with assms(2) obtain inst vw where i: "dialogs s v = Some inst" "dlg_view inst = Some vw"
    unfolding dialog_inv_def by (metis not_Some_eq)
  show ?thesis
    using assms(2) i Plugin unfolding Dialog_hide_visible [OF assms(1) Plugin i]
    by (auto simp add: dialog_inv_def)
qed (use assms(2) in \<open>simp_all add: Dialog_hide_def\<close>)

lemma inv_fire_show:
  assumes "plain_host h" and "dialog_inv s" "\<forall>v. visibleDialogPlugin s \<noteq> Plugin v"
    "dialogs s r = Some inst"
  shows "dialog_inv (fst (fire_show h r d s))"
  using assms(2-) unfolding fire_show_eq [OF assms(1,4)]
  by (auto simp add: dialog_inv_def)

lemma inv_show:
  assumes "plain_host h" and "dialog_inv s" "dialogs s r \<noteq> None"
  shows "dialog_inv (fst (Dialog_show h r d s))"
proof -
  obtain s1 t1 where hd: "Dialog_hide h r s = (s1, t1)" by (cases "Dialog_hide h r s")
  from inv_hide [OF assms(1,2), of r] hd
  have 1: "dialog_inv s1" "\<forall>v. visibleDialogPlugin s1 \<noteq> Plugin v"
    "dom (dialogs s1) = dom (dialogs s)"
    by simp_all
  with assms(3) obtain inst where "dialogs s1 r = Some inst" by (metis domIff not_Some_eq)
  from inv_fire_show [OF assms(1) 1(1,2) this, of d] show ?thesis
    by (simp add: Dialog_show_def fst_andThen hd)
qed

lemma inv_do_call: "plain_host h \<Longrightarrow> dialog_inv s \<Longrightarrow> dialog_inv (fst (do_call h c s))"
  by (cases c) (auto simp add: do_call_def inv_new inv_hide inv_show split: option.splits)

lemma inv_run: "plain_host h \<Longrightarrow> dialog_inv s \<Longrightarrow> dialog_inv (fst (run h cs s))"
proof (induction cs arbitrary: s)
  case Nil
  then show ?case by simp
next
  case (Cons c cs)
  from Cons.IH [OF Cons.prems(1) inv_do_call [OF Cons.prems, of c]]
  show ?case by (simp add: fst_andThen)
qed

lemma inv_after: "plain_host h \<Longrightarrow> dialog_inv (after h cs)"
  unfolding after_def by (rule inv_run [OF _ inv_init])

lemmas eval_defs = after_def do_call_def new_Dialog_def Dialog_constructor_def init_state_def
  Dialog_show_def Dialog_hide_def fire_show_def fire_hide_def andThen_def show_listener_def
  show_listener_low_def hide_listener_def hide_listener_low_def clear_onHide_def
  own_listeners_only_def quiet_host_def reentrant_host_def Dialog__show_def Dialog__hide_def
  plain_definition_def new_DialogView_def id_text_def isOpen_of_def id_of_def onHide_of_def
  view_of_def

lemma visible_has_view:
  assumes "plain_host h" and "visibleDialogPlugin (after h cs) = Plugin v"
  shows "view_of (after h cs) v \<noteq> None"
  using inv_after [OF assms(1), of cs] assms(2) unfolding dialog_inv_def view_of_def
  by (auto split: option.splits)

lemma dom_Dialog_hide:
  assumes "plain_host h"
  shows "dom (dialogs (fst (Dialog_hide h r s))) = dom (dialogs s)"
proof (cases "visibleDialogPlugin s")
  case (Plugin v)
  show ?thesis
  proof (cases "dialogs s v")
    case None
    then show ?thesis by (simp add: Dialog_hide_dangling [OF assms Plugin])
  next
    case (Some inst)
    then show ?thesis
      by (cases "dlg_view inst")
         (auto simp add: Dialog_hide_viewless [OF assms Plugin Some]
            Dialog_hide_visible [OF assms Plugin Some])
  qed
qed (simp_all add: Dialog_hide_def)

lemma show_result:
  assumes "plain_host h" and "dialogs s d \<noteq> None"
  shows "isOpen_of (fst (Dialog_show h d df s)) d = Some True \<and>
      id_of (fst (Dialog_show h d df s)) d = Some (def_id df) \<and>
      visibleDialogPlugin (fst (Dialog_show h d df s)) = Plugin d"
proof -
  from assms(2) dom_Dialog_hide [OF assms(1), of d s]
  obtain inst where "dialogs (fst (Dialog_hide h d s)) d = Some inst"
    by (metis domIff not_Some_eq)
  from fire_show_eq [OF assms(1) this, of df] show ?thesis
    by (simp add: Dialog_show_def fst_andThen isOpen_of_def id_of_def)
qed

lemma hide_result:
  assumes "plain_host h" and "visibleDialogPlugin s = Plugin v" "view_of s v \<noteq> None"
  shows "isOpen_of (fst (Dialog_hide h r s)) v = Some False \<and>
      id_of (fst (Dialog_hide h r s)) v = None \<and>
      onHide_of (fst (Dialog_hide h r s)) v = None \<and>
      map_option view_isDestroyed (view_of (fst (Dialog_hide h r s)) v) = Some True \<and>
      visibleDialogPlugin (fst (Dialog_hide h r s)) = Null"
proof -
  from assms(3) obtain inst vw where i: "dialogs s v = Some inst" "dlg_view inst = Some vw"
    by (auto simp add: view_of_def split: option.splits)
  show ?thesis
    by (simp add: Dialog_hide_visible [OF assms(1,2) i] isOpen_of_def id_of_def onHide_of_def
        view_of_def hidden_view_def)
qed

lemma hide_twice_state:
  assumes "plain_host h"
  shows "fst (Dialog_hide h r' (fst (Dialog_hide h r s))) = fst (Dialog_hide h r s)"
proof (cases "visibleDialogPlugin s")
  case (Plugin v)
  show ?thesis
  proof (cases "dialogs s v")
    case None
    then show ?thesis by (simp add: Dialog_hide_dangling [OF assms] Plugin)
  next
    case (Some inst)
    show ?thesis
    proof (cases "dlg_view inst")
      case None
      have "Dialog_hide h r' (s\<lparr>dialogs := (dialogs s)(v \<mapsto> inst\<lparr>dlg_onHide := None\<rparr>)\<rparr>) =
          (s\<lparr>dialogs := (dialogs s)(v \<mapsto> inst\<lparr>dlg_onHide := None\<rparr>)\<rparr>,
           [Fire v (''hide:'' @ id_text (dlg_id inst))])"
        using Dialog_hide_viewless
          [OF assms, of "s\<lparr>dialogs := (dialogs s)(v \<mapsto> inst\<lparr>dlg_onHide := None\<rparr>)\<rparr>"
            v "inst\<lparr>dlg_onHide := None\<rparr>" r'] Plugin None
        by simp
      then show ?thesis
        by (simp add: Dialog_hide_viewless [OF assms Plugin Some None])
    next
      case (Some vw)
      show ?thesis
        unfolding Dialog_hide_visible [OF assms Plugin \<open>dialogs s v = Some inst\<close> Some]
        by (simp add: Dialog_hide_def)
    qed
  qed
qed (simp_all add: Dialog_hide_def)

lemma hide_twice_reachable:
  assumes "plain_host h"
  shows "andThen (Dialog_hide h r) (Dialog_hide h r') (after h cs) = Dialog_hide h r (after h cs)"
proof (cases "visibleDialogPlugin (after h cs)")
  case (Plugin v)
  from visible_has_view [OF assms Plugin]
  obtain inst vw where i: "dialogs (after h cs) v = Some inst" "dlg_view inst = Some vw"
    by (auto simp add: view_of_def split: option.splits)
  show ?thesis
    unfolding andThen_def Dialog_hide_visible [OF assms Plugin i]
    by (simp add: Dialog_hide_def)
qed (simp_all add: Dialog_hide_def andThen_def)

text \<open>
  \<open>_hide\<close> runs only as a listener of the \<open>hide\<close> event. When an outside listener stops
  that event, \<open>hide\<close> changes nothing, and a second \<open>show\<close> leaves two instances open.
  This is why the theorems below assume that the events reach the plugin's own listeners.
\<close>

lemma stopped_hide_changes_nothing: "fst (Dialog_hide stopping_host r s) = s"
  by (cases "visibleDialogPlugin s")
     (simp_all add: Dialog_hide_def fire_hide_def stopping_host_def)

lemma stopped_hide_two_open:
  "isOpen_of (after stopping_host two_shows) 0 = Some True \<and>
   isOpen_of (after stopping_host two_shows) 1 = Some True \<and>
   visibleDialogPlugin (after stopping_host two_shows) = Plugin 1"
  by (simp add: two_shows_def stopping_host_def eval_defs)

subsection \<open>Visibility and lifecycle\<close>




text \<open>
  C2, with the condition it needs. On a plain host: from any state in which the instance
  \<open>d\<close> exists, after \<open>d.show( def )\<close> the instance has \<open>isOpen = true\<close> and
  \<open>id = def.id\<close> and is the recorded visible plugin. From any state in which the slot
  records an instance \<open>v\<close> that has a view, after \<open>hide()\<close> on any instance \<open>r\<close> the
  instance \<open>v\<close> has \<open>isOpen = false\<close> and \<open>id = null\<close> and the slot is \<open>null\<close>. After a
  sequence of calls the recorded instance always has a view, so there the slot recording
  \<open>w\<close> is enough.
\<close>

theorem show_hide_lifecycle:
  assumes "plain_host h"
  shows
  "(dialogs s d \<noteq> None \<longrightarrow>
      isOpen_of (fst (Dialog_show h d dialogDefinition s)) d = Some True \<and>
      id_of (fst (Dialog_show h d dialogDefinition s)) d = Some (def_id dialogDefinition) \<and>
      visibleDialogPlugin (fst (Dialog_show h d dialogDefinition s)) = Plugin d) \<and>
   (visibleDialogPlugin s = Plugin v \<and> view_of s v \<noteq> None \<longrightarrow>
      isOpen_of (fst (Dialog_hide h r s)) v = Some False \<and>
      id_of (fst (Dialog_hide h r s)) v = None \<and>
      visibleDialogPlugin (fst (Dialog_hide h r s)) = Null) \<and>
   (visibleDialogPlugin (after h cs) = Plugin w \<longrightarrow>
      isOpen_of (fst (Dialog_hide h r (after h cs))) w = Some False \<and>
      id_of (fst (Dialog_hide h r (after h cs))) w = None \<and>
      visibleDialogPlugin (fst (Dialog_hide h r (after h cs))) = Null)"
  using show_result [OF assms, of s d dialogDefinition] hide_result [OF assms, of s v r]
    hide_result [OF assms _ visible_has_view [OF assms], of cs w r]
  by blast

theorem show_hide_lifecycle_witness:
  "plain_host quiet_host \<and>
   dialogs (after quiet_host find_open) 1 \<noteq> None \<and>
   isOpen_of (fst (Dialog_show quiet_host 1 (plain_definition ''link'') (after quiet_host find_open))) 1
     = Some True \<and>
   id_of (fst (Dialog_show quiet_host 1 (plain_definition ''link'') (after quiet_host find_open))) 1
     = Some ''link'' \<and>
   visibleDialogPlugin
     (fst (Dialog_show quiet_host 1 (plain_definition ''link'') (after quiet_host find_open)))
     = Plugin 1 \<and>
   visibleDialogPlugin (after quiet_host find_open) = Plugin 0 \<and>
   view_of (after quiet_host find_open) 0 \<noteq> None \<and>
   isOpen_of (after quiet_host find_open) 0 = Some True \<and>
   id_of (after quiet_host find_open) 0 = Some ''find'' \<and>
   isOpen_of (fst (Dialog_hide quiet_host 1 (after quiet_host find_open))) 0 = Some False \<and>
   id_of (fst (Dialog_hide quiet_host 1 (after quiet_host find_open))) 0 = None \<and>
   visibleDialogPlugin (fst (Dialog_hide quiet_host 1 (after quiet_host find_open))) = Null"
proof -
  have h: "dialogs (after quiet_host find_open) 1 \<noteq> None"
    "visibleDialogPlugin (after quiet_host find_open) = Plugin 0"
    "view_of (after quiet_host find_open) 0 \<noteq> None"
    "isOpen_of (after quiet_host find_open) 0 = Some True"
    "id_of (after quiet_host find_open) 0 = Some ''find''"
    by (simp_all add: find_open_def find_definition_def eval_defs)
  from h plain_quiet_host
    show_hide_lifecycle [OF plain_quiet_host,
      of "after quiet_host find_open" 1 "plain_definition ''link''" 0 1 find_open 0]
  show ?thesis by (simp add: plain_definition_def)
qed

text \<open>
  C2 as written, for every dialog definition, fails when a callback calls back:
  after \<open>d.show( { id: 'x', onShow: d => d.hide() } )\<close> on a fresh instance the instance
  has \<open>isOpen = false\<close> and \<open>id = null\<close>, and the slot is \<open>null\<close>.
\<close>

theorem hide_on_show_closed:
  "dialogs (after reentrant_host [New 0]) 0 \<noteq> None \<and>
   isOpen_of (fst (Dialog_show reentrant_host 0 hide_on_show (after reentrant_host [New 0]))) 0
     = Some False \<and>
   id_of (fst (Dialog_show reentrant_host 0 hide_on_show (after reentrant_host [New 0]))) 0
     = None \<and>
   visibleDialogPlugin
     (fst (Dialog_show reentrant_host 0 hide_on_show (after reentrant_host [New 0]))) = Null"
  by (simp add: hide_on_show_def eval_defs)







text \<open>
  C5, with the condition it needs. When the static slot is \<open>null\<close> (or still
  \<open>undefined\<close>), \<open>hide()\<close> on any instance changes nothing and has no effect at all,
  whatever the host. On a plain host: after a sequence of calls the recorded instance
  always has a view, so the slot being empty is the only way for no dialog to be visible;
  from every state, the state after two \<open>hide()\<close> calls is the state after one; and after
  a sequence of calls two \<open>hide()\<close> calls in a row give the same state and the same trace
  as one.
\<close>

theorem hide_without_visible_dialog:
  "(visibleDialogPlugin s = Null \<or> visibleDialogPlugin s = Undefined \<longrightarrow>
      Dialog_hide h r s = (s, [])) \<and>
   (plain_host h \<longrightarrow>
      (visibleDialogPlugin (after h cs) = Plugin v \<longrightarrow> view_of (after h cs) v \<noteq> None) \<and>
      fst (Dialog_hide h r' (fst (Dialog_hide h r s))) = fst (Dialog_hide h r s) \<and>
      andThen (Dialog_hide h r) (Dialog_hide h r') (after h cs) = Dialog_hide h r (after h cs))"
proof (intro conjI impI)
  assume "visibleDialogPlugin s = Null \<or> visibleDialogPlugin s = Undefined"
  then show "Dialog_hide h r s = (s, [])" by (auto simp add: Dialog_hide_def)
next
  assume "plain_host h" and "visibleDialogPlugin (after h cs) = Plugin v"
  then show "view_of (after h cs) v \<noteq> None" by (rule visible_has_view)
next
  assume "plain_host h"
  then show "fst (Dialog_hide h r' (fst (Dialog_hide h r s))) = fst (Dialog_hide h r s)"
    by (rule hide_twice_state)
next
  assume "plain_host h"
  then show "andThen (Dialog_hide h r) (Dialog_hide h r') (after h cs) =
      Dialog_hide h r (after h cs)"
    by (rule hide_twice_reachable)
qed

theorem hide_without_visible_dialog_witness:
  "visibleDialogPlugin (after quiet_host [New 0]) = Undefined \<and>
   Dialog_hide quiet_host 0 (after quiet_host [New 0]) = (after quiet_host [New 0], []) \<and>
   plain_host quiet_host \<and>
   visibleDialogPlugin (after quiet_host find_open) = Plugin 0 \<and>
   view_of (after quiet_host find_open) 0 \<noteq> None \<and>
   fst (Dialog_hide quiet_host 1 (fst (Dialog_hide quiet_host 0 (after quiet_host find_open)))) =
     fst (Dialog_hide quiet_host 0 (after quiet_host find_open)) \<and>
   andThen (Dialog_hide quiet_host 0) (Dialog_hide quiet_host 1) (after quiet_host find_open) =
     Dialog_hide quiet_host 0 (after quiet_host find_open)"
proof -
  have h: "visibleDialogPlugin (after quiet_host [New 0]) = Undefined"
    "visibleDialogPlugin (after quiet_host find_open) = Plugin 0"
    by (simp_all add: find_open_def find_definition_def eval_defs)
  from h plain_quiet_host
    hide_without_visible_dialog [of "after quiet_host [New 0]" quiet_host 0 find_open 0 1]
    hide_without_visible_dialog [of "after quiet_host find_open" quiet_host 0 find_open 0 1]
  show ?thesis by simp
qed

text \<open>
  C5 as written, that from every state two \<open>hide()\<close> calls have the effect of one, fails
  when a callback calls back: instance 0 is visible with an \<open>onHide\<close> that shows a dialog
  of instance 1. The first \<open>hide()\<close> closes instance 0 and the callback opens instance 1;
  the second \<open>hide()\<close> closes instance 1.
\<close>

theorem hide_twice_differs:
  "visibleDialogPlugin (after reentrant_host show_other_open) = Plugin 0 \<and>
   isOpen_of (fst (Dialog_hide reentrant_host 0 (after reentrant_host show_other_open))) 1
     = Some True \<and>
   visibleDialogPlugin (fst (Dialog_hide reentrant_host 0 (after reentrant_host show_other_open)))
     = Plugin 1 \<and>
   isOpen_of
     (fst (Dialog_hide reentrant_host 0
        (fst (Dialog_hide reentrant_host 0 (after reentrant_host show_other_open))))) 1
     = Some False \<and>
   visibleDialogPlugin
     (fst (Dialog_hide reentrant_host 0
        (fst (Dialog_hide reentrant_host 0 (after reentrant_host show_other_open)))))
     = Null \<and>
   fst (Dialog_hide reentrant_host 0
        (fst (Dialog_hide reentrant_host 0 (after reentrant_host show_other_open)))) \<noteq>
   fst (Dialog_hide reentrant_host 0 (after reentrant_host show_other_open))"
proof -
  have 1: "visibleDialogPlugin (after reentrant_host show_other_open) = Plugin 0"
    "isOpen_of (fst (Dialog_hide reentrant_host 0 (after reentrant_host show_other_open))) 1
       = Some True"
    "visibleDialogPlugin
       (fst (Dialog_hide reentrant_host 0 (after reentrant_host show_other_open))) = Plugin 1"
    by (simp_all add: show_other_open_def eval_defs)
  have 2: "isOpen_of
       (fst (Dialog_hide reentrant_host 0
          (fst (Dialog_hide reentrant_host 0 (after reentrant_host show_other_open))))) 1
       = Some False"
    "visibleDialogPlugin
       (fst (Dialog_hide reentrant_host 0
          (fst (Dialog_hide reentrant_host 0 (after reentrant_host show_other_open))))) = Null"
    by (simp_all add: show_other_open_def eval_defs)
  from 1(3) 2(2) have 3: "fst (Dialog_hide reentrant_host 0
        (fst (Dialog_hide reentrant_host 0 (after reentrant_host show_other_open)))) \<noteq>
      fst (Dialog_hide reentrant_host 0 (after reentrant_host show_other_open))"
    by auto
  from 1 2 3 show ?thesis by blast
qed

section \<open>Properties of the start-index field\<close>


lemma parseInt_less_than_one:
  "js_lt (Number_parseInt v) (Num 1) \<longleftrightarrow>
     Number_parseInt v = NegZero \<or> (\<exists>n. Number_parseInt v = Num n \<and> n < 1)"
  by (cases "Number_parseInt v") (simp_all add: js_lt_def)




end
